theory Spec2Isabelle
  imports Complex_Main
begin

section \<open>Documents and collections\<close>

text \<open>
  The swap routes (\<^verbatim>\<open>backend/routes/swaps.js\<close>) work on four Mongoose collections:
  users, items, swaps and activities. A collection is modelled as the list of its
  documents, an \<^verbatim>\<open>ObjectId\<close> as a natural number, and a JavaScript Number that holds
  points as an \<open>int\<close>. Only the fields that the swap routes read or write are kept.
\<close>

type_synonym oid = nat

text \<open>\<^verbatim>\<open>itemSchema.status\<close>: enum ['pending', 'available', 'swapped', 'removed'].\<close>

datatype item_status = ItemPending | Available | Swapped | Removed

text \<open>\<^verbatim>\<open>swapSchema.status\<close>: enum ['pending', 'accepted', 'declined', 'cancelled', 'completed'].\<close>

datatype swap_status = Pending | Accepted | Declined | Cancelled | Completed

record user =
  u_id :: oid
  u_points :: int
  u_level :: string

record item =
  i_id :: oid
  i_user_id :: oid
  i_title :: string
  i_points :: int
  i_status :: item_status

record swap =
  s_id :: oid
  s_requester_id :: oid
  s_item_id :: oid
  s_offered_item_id :: "oid option"
  s_status :: swap_status
  s_points_offered :: int
  s_message :: string

text \<open>The type of an activity stays a string: the schema checks it against an enum on save.\<close>

record activity =
  a_user_id :: oid
  a_type :: string
  a_description :: string
  a_points :: int
  a_related_item_id :: "oid option"

record db =
  users :: "user list"
  items :: "item list"
  swaps :: "swap list"
  activities :: "activity list"

text \<open>
  What a handler sends back: \<^verbatim>\<open>res.status(n).json({ error })\<close>,
  \<^verbatim>\<open>res.status(n).json({ error, message })\<close>, \<^verbatim>\<open>res.status(201).json({ id, message })\<close>
  and \<^verbatim>\<open>res.json({ message })\<close>.
\<close>

datatype response =
    Error nat string
  | ErrorMsg nat string string
  | Created oid string
  | Ok string

section \<open>Strings\<close>

text \<open>\<^verbatim>\<open>String.prototype.trim\<close>, on the white space of the 8-bit characters.\<close>

definition is_space :: "char \<Rightarrow> bool" where
  "is_space c = (c \<in> set [CHR 0x09, CHR 0x0A, CHR 0x0B, CHR 0x0C, CHR 0x0D, CHR 0x20, CHR 0xA0])"

definition trim :: "string \<Rightarrow> string" where
  "trim s = rev (dropWhile is_space (rev (dropWhile is_space s)))"

text \<open>A template literal prints an integer Number in decimal.\<close>

definition digit_char :: "nat \<Rightarrow> char" where
  "digit_char n = ''0123456789'' ! n"

fun show_nat :: "nat \<Rightarrow> string" where
  "show_nat n = (if n < 10 then [digit_char n] else show_nat (n div 10) @ [digit_char (n mod 10)])"

declare show_nat.simps [simp del]

definition show_int :: "int \<Rightarrow> string" where
  "show_int i = (if i < 0 then CHR ''-'' # show_nat (nat (- i)) else show_nat (nat i))"

section \<open>Queries and writes\<close>

text \<open>\<^verbatim>\<open>Model.findById\<close>: the document with that \<^verbatim>\<open>_id\<close>, or null.\<close>

definition find_user :: "db \<Rightarrow> oid \<Rightarrow> user option" where
  "find_user d uid = find (\<lambda>u. u_id u = uid) (users d)"

definition find_item :: "db \<Rightarrow> oid \<Rightarrow> item option" where
  "find_item d iid = find (\<lambda>i. i_id i = iid) (items d)"

definition find_swap :: "db \<Rightarrow> oid \<Rightarrow> swap option" where
  "find_swap d sid = find (\<lambda>s. s_id s = sid) (swaps d)"

text \<open>\<^verbatim>\<open>Swap.findOne({ requester_id, item_id, status: 'pending' })\<close>.\<close>

definition find_pending :: "db \<Rightarrow> oid \<Rightarrow> oid \<Rightarrow> swap option" where
  "find_pending d requester_id item_id =
     find (\<lambda>s. s_requester_id s = requester_id \<and> s_item_id s = item_id \<and> s_status s = Pending)
       (swaps d)"

text \<open>
  \<^verbatim>\<open>findByIdAndUpdate\<close> and the \<^verbatim>\<open>save\<close> of a loaded document write the one document
  that the query finds, and write nothing when there is none.
\<close>

fun update_first :: "('a \<Rightarrow> bool) \<Rightarrow> ('a \<Rightarrow> 'a) \<Rightarrow> 'a list \<Rightarrow> 'a list" where
  "update_first P f [] = []"
| "update_first P f (x # xs) = (if P x then f x # xs else x # update_first P f xs)"

text \<open>\<^verbatim>\<open>Item.findByIdAndUpdate(id, { status })\<close>.\<close>

definition set_item_status :: "db \<Rightarrow> oid \<Rightarrow> item_status \<Rightarrow> db" where
  "set_item_status d iid st =
     d\<lparr>items := update_first (\<lambda>i. i_id i = iid) (\<lambda>i. i\<lparr>i_status := st\<rparr>) (items d)\<rparr>"

text \<open>\<^verbatim>\<open>User.findByIdAndUpdate(id, { $inc: { points: n } })\<close>: only the points field is written.\<close>

definition inc_points :: "db \<Rightarrow> oid \<Rightarrow> int \<Rightarrow> db" where
  "inc_points d uid n =
     d\<lparr>users := update_first (\<lambda>u. u_id u = uid) (\<lambda>u. u\<lparr>u_points := u_points u + n\<rparr>) (users d)\<rparr>"

text \<open>
  The validators of \<^verbatim>\<open>swapSchema\<close> that can fail on the values the routes write:
  \<^verbatim>\<open>points_offered: { min: 0 }\<close> and \<^verbatim>\<open>message: { maxlength: 500 }\<close>.
\<close>

definition swap_valid :: "swap \<Rightarrow> bool" where
  "swap_valid s = (0 \<le> s_points_offered s \<and> length (s_message s) \<le> 500)"

text \<open>\<^verbatim>\<open>swap.save()\<close> of a loaded swap; \<open>None\<close> is the ValidationError.\<close>

definition save_swap :: "db \<Rightarrow> swap \<Rightarrow> db option" where
  "save_swap d s =
     (if swap_valid s
      then Some (d\<lparr>swaps := update_first (\<lambda>x. s_id x = s_id s) (\<lambda>_. s) (swaps d)\<rparr>)
      else None)"

text \<open>A new document gets an \<^verbatim>\<open>_id\<close> that no document of the collection has.\<close>

definition new_oid :: "oid list \<Rightarrow> oid" where
  "new_oid ids = Suc (fold max ids 0)"

text \<open>
  \<^verbatim>\<open>new Swap({ requester_id, item_id, offered_item_id, points_offered, message })\<close>:
  no status is given, so the schema's default \<^verbatim>\<open>'pending'\<close> applies; the message is
  trimmed by the schema.
\<close>

definition new_swap :: "db \<Rightarrow> oid \<Rightarrow> oid \<Rightarrow> oid option \<Rightarrow> int \<Rightarrow> string \<Rightarrow> swap" where
  "new_swap d requester_id item_id offered_item_id points_offered message =
     \<lparr>s_id = new_oid (map s_id (swaps d)), s_requester_id = requester_id, s_item_id = item_id,
      s_offered_item_id = offered_item_id, s_status = Pending,
      s_points_offered = points_offered, s_message = trim message\<rparr>"

text \<open>\<^verbatim>\<open>swap.save()\<close> of a new swap.\<close>

definition insert_swap :: "db \<Rightarrow> swap \<Rightarrow> db option" where
  "insert_swap d s = (if swap_valid s then Some (d\<lparr>swaps := swaps d @ [s]\<rparr>) else None)"

text \<open>\<^verbatim>\<open>activitySchema.type\<close>: the enum of the schema.\<close>

definition activity_types :: "string list" where
  "activity_types =
     [''item_listed'', ''swap_request'', ''swap_completed'', ''swap_declined'', ''item_liked'',
      ''points_earned'']"

text \<open>\<^verbatim>\<open>new Activity({ user_id, type, description, points, related_item_id })\<close>.\<close>

definition new_activity :: "oid \<Rightarrow> string \<Rightarrow> string \<Rightarrow> int \<Rightarrow> oid \<Rightarrow> activity" where
  "new_activity uid ty description pts iid =
     \<lparr>a_user_id = uid, a_type = ty, a_description = trim description, a_points = pts,
      a_related_item_id = Some iid\<rparr>"

text \<open>The type must be in the enum and the description is required.\<close>

definition activity_valid :: "activity \<Rightarrow> bool" where
  "activity_valid a = (a_type a \<in> set activity_types \<and> a_description a \<noteq> [])"

text \<open>\<^verbatim>\<open>activity.save()\<close>; \<open>None\<close> is the ValidationError.\<close>

definition save_activity :: "db \<Rightarrow> activity \<Rightarrow> db option" where
  "save_activity d a =
     (if activity_valid a then Some (d\<lparr>activities := activities d @ [a]\<rparr>) else None)"

section \<open>The level of a user\<close>

text \<open>\<^verbatim>\<open>userSchema.methods.updateLevel\<close> (\<^verbatim>\<open>backend/models/User.js\<close>).\<close>

definition level_of :: "int \<Rightarrow> string" where
  "level_of p =
     (if p \<ge> 1000 then ''Swap Master''
      else if p \<ge> 500 then ''Eco Champion''
      else if p \<ge> 100 then ''Fashion Enthusiast''
      else ''Newcomer'')"

definition updateLevel :: "user \<Rightarrow> user" where
  "updateLevel u = u\<lparr>u_level := level_of (u_points u)\<rparr>"

section \<open>Creating a swap request\<close>

text \<open>
  The body of \<^verbatim>\<open>POST /api/swaps\<close>; a field that the request leaves out is \<open>None\<close>.
  The requester is \<^verbatim>\<open>req.user.userId\<close> of the verified token.
\<close>

record create_body =
  b_item_id :: "oid option"
  b_offered_item_id :: "oid option"
  b_points_offered :: "int option"
  b_message :: "string option"

text \<open>
  The checks of the offered item, in the order of the handler; \<open>Some\<close> is the response
  that ends the request.
\<close>

definition validate_offered :: "db \<Rightarrow> oid \<Rightarrow> oid option \<Rightarrow> response option" where
  "validate_offered d requester_id offered_item_id =
     (case offered_item_id of
        None \<Rightarrow> None
      | Some oi \<Rightarrow>
          (case find_item d oi of
             None \<Rightarrow> Some (Error 404 ''Offered item not found'')
           | Some offeredItem \<Rightarrow>
               if i_user_id offeredItem \<noteq> requester_id
               then Some (Error 403 ''You can only offer your own items'')
               else if i_status offeredItem \<noteq> Available
               then Some (Error 400 ''Offered item must be available'')
               else None))"

text \<open>\<^verbatim>\<open>points_offered >= item.points\<close>; the comparison is false when no points are offered.\<close>

definition threshold_met :: "int option \<Rightarrow> item \<Rightarrow> bool" where
  "threshold_met points_offered it =
     (case points_offered of None \<Rightarrow> False | Some p \<Rightarrow> p \<ge> i_points it)"

text \<open>\<^verbatim>\<open>x || 0\<close> on a Number that may be missing.\<close>

definition or_zero :: "int option \<Rightarrow> int" where
  "or_zero x = (case x of None \<Rightarrow> 0 | Some p \<Rightarrow> if p = 0 then 0 else p)"

text \<open>The message of the response for insufficient points.\<close>

definition insufficient_message :: "item \<Rightarrow> user option \<Rightarrow> string" where
  "insufficient_message it u =
     ''You need '' @ show_int (i_points it) @ '' points to redeem this item. You have '' @
     show_int (or_zero (map_option u_points u)) @ '' points.''"

text \<open>
  The block under \<^verbatim>\<open>if (points_offered >= item.points)\<close>: either the response for
  insufficient points, or the database after the three writes (the item is marked as
  swapped, the requester pays, the owner is paid). Below the threshold nothing is written.
\<close>

definition redeem :: "db \<Rightarrow> oid \<Rightarrow> item \<Rightarrow> user \<Rightarrow> int option \<Rightarrow> response + db" where
  "redeem d requester_id it owner points_offered =
     (if threshold_met points_offered it then
        (let u = find_user d requester_id in
         if (case u of None \<Rightarrow> True | Some usr \<Rightarrow> u_points usr < i_points it)
         then Inl (ErrorMsg 400 ''Insufficient points'' (insufficient_message it u))
         else
           (let d1 = set_item_status d (i_id it) Swapped;
                d2 = inc_points d1 requester_id (- i_points it);
                d3 = inc_points d2 (u_id owner) (i_points it)
            in Inr d3))
      else Inr d)"

text \<open>
  The rest of the handler: the swap is saved, then the activity, then the response is
  sent. A failed save throws, and the \<^verbatim>\<open>catch\<close> answers 500; what was written before
  stays written.
\<close>

definition record_swap :: "db \<Rightarrow> oid \<Rightarrow> item \<Rightarrow> create_body \<Rightarrow> response \<times> db" where
  "record_swap d requester_id it body =
     (let sw = new_swap d requester_id (i_id it) (b_offered_item_id body)
                 (or_zero (b_points_offered body))
                 (case b_message body of None \<Rightarrow> [] | Some m \<Rightarrow> m);
          redeemed = threshold_met (b_points_offered body) it
      in case insert_swap d sw of
           None \<Rightarrow> (Error 500 ''Failed to create swap request'', d)
         | Some d1 \<Rightarrow>
             (let act = new_activity requester_id
                          (if redeemed then ''point_redemption'' else ''swap_request'')
                          (if redeemed
                           then ''Redeemed '' @ i_title it @ '' with '' @ show_int (i_points it) @ '' points''
                           else ''Requested swap for '' @ i_title it)
                          (if redeemed then - i_points it else 0)
                          (i_id it)
              in case save_activity d1 act of
                   None \<Rightarrow> (Error 500 ''Failed to create swap request'', d1)
                 | Some d2 \<Rightarrow>
                     (Created (s_id sw)
                        (if redeemed then ''Item redeemed successfully''
                         else ''Swap request created successfully''), d2)))"

text \<open>
  \<^verbatim>\<open>router.post('/')\<close>. The item is loaded with its owner populated; when the owner's
  document is gone, \<^verbatim>\<open>item.user_id\<close> is null and reading \<^verbatim>\<open>_id\<close> throws.
\<close>

definition create :: "db \<Rightarrow> oid \<Rightarrow> create_body \<Rightarrow> response \<times> db" where
  "create d requester_id body =
     (case b_item_id body of
        None \<Rightarrow> (Error 400 ''Item ID is required'', d)
      | Some item_id \<Rightarrow>
          (case find_item d item_id of
             None \<Rightarrow> (Error 404 ''Item not found or not available'', d)
           | Some it \<Rightarrow>
               if i_status it \<noteq> Available
               then (Error 404 ''Item not found or not available'', d)
               else
                 (case find_user d (i_user_id it) of
                    None \<Rightarrow> (Error 500 ''Failed to create swap request'', d)
                  | Some owner \<Rightarrow>
                      if u_id owner = requester_id
                      then (Error 400 ''Cannot swap your own item'', d)
                      else
                        (case find_pending d requester_id item_id of
                           Some existingSwap \<Rightarrow>
                             (Error 400 ''You already have a pending swap request for this item'', d)
                         | None \<Rightarrow>
                             (case validate_offered d requester_id (b_offered_item_id body) of
                                Some err \<Rightarrow> (err, d)
                              | None \<Rightarrow>
                                  (case redeem d requester_id it owner (b_points_offered body) of
                                     Inl err \<Rightarrow> (err, d)
                                   | Inr d1 \<Rightarrow> record_swap d1 requester_id it body))))))"

section \<open>Accepting, declining and cancelling\<close>

text \<open>
  \<^verbatim>\<open>Math.floor(swap.item_id.points * 0.1)\<close> is computed on IEEE doubles. The points are an
  integer Number, so they are a double as they stand. The literal \<^verbatim>\<open>0.1\<close> is the double
  \<open>3602879701896397 / 2 ^ 55\<close>. The product of the two is rounded to the nearest double,
  which has 53 significant bits, a tie going to the even one; no product of an integer
  below \<open>2 ^ 53\<close> leaves the range of the normal doubles.
\<close>

text \<open>The number of bits of a natural number.\<close>

fun bit_length :: "nat \<Rightarrow> nat" where
  "bit_length n = (if n = 0 then 0 else Suc (bit_length (n div 2)))"

declare bit_length.simps [simp del]

text \<open>A non-negative integer rounded to 53 significant bits, ties to even.\<close>

definition round53 :: "int \<Rightarrow> int" where
  "round53 n =
     (let s = bit_length (nat n) - 53; q = n div 2 ^ s; r = n mod 2 ^ s
      in if 2 * r > 2 ^ s \<or> (2 * r = 2 ^ s \<and> odd q) then (q + 1) * 2 ^ s else q * 2 ^ s)"

text \<open>The rounded product is \<open>m / 2 ^ 55\<close> with the sign of the points; then the floor.\<close>

definition pointsToAward :: "int \<Rightarrow> int" where
  "pointsToAward p =
     (let m = round53 (\<bar>p\<bar> * 3602879701896397)
      in (if p < 0 then - m else m) div 2 ^ 55)"

text \<open>The two activities and the response that end \<^verbatim>\<open>router.put('/:id/accept')\<close>.\<close>

definition accept_activities :: "db \<Rightarrow> swap \<Rightarrow> item \<Rightarrow> oid \<Rightarrow> int \<Rightarrow> response \<times> db" where
  "accept_activities d sw it userId award =
     (case save_activity d
             (new_activity (s_requester_id sw) ''swap_completed''
                (''Successfully swapped '' @ i_title it) award (i_id it)) of
        None \<Rightarrow> (Error 500 ''Failed to accept swap request'', d)
      | Some d1 \<Rightarrow>
          (case save_activity d1
                  (new_activity userId ''swap_completed''
                     (''Accepted swap for '' @ i_title it) award (i_id it)) of
             None \<Rightarrow> (Error 500 ''Failed to accept swap request'', d1)
           | Some d2 \<Rightarrow> (Ok ''Swap request accepted successfully'', d2)))"

text \<open>
  \<^verbatim>\<open>router.put('/:id/accept')\<close>. The swap is loaded with its item populated; when the
  item's document is gone, \<^verbatim>\<open>swap.item_id\<close> is null and reading \<^verbatim>\<open>user_id\<close> throws.
  The handler never reads the item's status.
\<close>

definition accept :: "db \<Rightarrow> oid \<Rightarrow> oid \<Rightarrow> response \<times> db" where
  "accept d sid userId =
     (case find_swap d sid of
        None \<Rightarrow> (Error 404 ''Swap request not found'', d)
      | Some sw \<Rightarrow>
          (case find_item d (s_item_id sw) of
             None \<Rightarrow> (Error 500 ''Failed to accept swap request'', d)
           | Some it \<Rightarrow>
               if i_user_id it \<noteq> userId
               then (Error 403 ''Only the item owner can accept swap requests'', d)
               else if s_status sw \<noteq> Pending
               then (Error 400 ''Swap request is no longer pending'', d)
               else
                 (case save_swap d (sw\<lparr>s_status := Completed\<rparr>) of
                    None \<Rightarrow> (Error 500 ''Failed to accept swap request'', d)
                  | Some d1 \<Rightarrow>
                      (let d2 = set_item_status d1 (i_id it) Swapped;
                           award = pointsToAward (i_points it);
                           d3 = inc_points d2 (s_requester_id sw) award;
                           d4 = inc_points d3 userId award
                       in accept_activities d4 sw it userId award))))"

text \<open>\<^verbatim>\<open>router.put('/:id/decline')\<close>.\<close>

definition decline :: "db \<Rightarrow> oid \<Rightarrow> oid \<Rightarrow> response \<times> db" where
  "decline d sid userId =
     (case find_swap d sid of
        None \<Rightarrow> (Error 404 ''Swap request not found'', d)
      | Some sw \<Rightarrow>
          (case find_item d (s_item_id sw) of
             None \<Rightarrow> (Error 500 ''Failed to decline swap request'', d)
           | Some it \<Rightarrow>
               if i_user_id it \<noteq> userId
               then (Error 403 ''Only the item owner can decline swap requests'', d)
               else if s_status sw \<noteq> Pending
               then (Error 400 ''Swap request is no longer pending'', d)
               else
                 (case save_swap d (sw\<lparr>s_status := Declined\<rparr>) of
                    None \<Rightarrow> (Error 500 ''Failed to decline swap request'', d)
                  | Some d1 \<Rightarrow>
                      (case save_activity d1
                              (new_activity (s_requester_id sw) ''swap_declined''
                                 (''Swap request for '' @ i_title it @ '' was declined'') 0 (i_id it)) of
                         None \<Rightarrow> (Error 500 ''Failed to decline swap request'', d1)
                       | Some d2 \<Rightarrow> (Ok ''Swap request declined successfully'', d2)))))"

text \<open>
  \<^verbatim>\<open>router.put('/:id/cancel')\<close>. The item is populated for its title only and is never
  read: the swap is cancelled whether the item's document is there or not.
\<close>

definition cancel :: "db \<Rightarrow> oid \<Rightarrow> oid \<Rightarrow> response \<times> db" where
  "cancel d sid userId =
     (case find_swap d sid of
        None \<Rightarrow> (Error 404 ''Swap request not found'', d)
      | Some sw \<Rightarrow>
          if s_requester_id sw \<noteq> userId
          then (Error 403 ''Only the requester can cancel swap requests'', d)
          else if s_status sw \<noteq> Pending
          then (Error 400 ''Swap request is no longer pending'', d)
          else
            (case save_swap d (sw\<lparr>s_status := Cancelled\<rparr>) of
               None \<Rightarrow> (Error 500 ''Failed to cancel swap request'', d)
             | Some d1 \<Rightarrow> (Ok ''Swap request cancelled successfully'', d1)))"

section \<open>Sample states\<close>

text \<open>
  The state of the scenarios of the specification: user 1 owns item 10, user 2 asks for
  it, and user 3 is a bystander. The parameters are the balance of the owner, the balance
  of the requester and the valuation of the item. Every level is the one that
  \<open>updateLevel\<close> derives.
\<close>

definition scenario :: "int \<Rightarrow> int \<Rightarrow> int \<Rightarrow> db" where
  "scenario owner_points requester_points valuation =
     \<lparr>users =
        [\<lparr>u_id = 1, u_points = owner_points, u_level = level_of owner_points\<rparr>,
         \<lparr>u_id = 2, u_points = requester_points, u_level = level_of requester_points\<rparr>,
         \<lparr>u_id = 3, u_points = 320, u_level = level_of 320\<rparr>],
      items =
        [\<lparr>i_id = 10, i_user_id = 1, i_title = ''Vintage Denim Jacket'', i_points = valuation,
          i_status = Available\<rparr>],
      swaps = [], activities = []\<rparr>"

text \<open>A request for item 10 that offers points and no item.\<close>

definition offer :: "int \<Rightarrow> create_body" where
  "offer p =
     \<lparr>b_item_id = Some 10, b_offered_item_id = None, b_points_offered = Some p,
      b_message = None\<rparr>"

lemmas sample_defs = scenario_def offer_def level_of_def

lemmas query_defs = find_user_def find_item_def find_swap_def find_pending_def

lemmas write_defs =
  set_item_status_def inc_points_def save_swap_def insert_swap_def save_activity_def
  swap_valid_def activity_valid_def activity_types_def new_swap_def new_activity_def
  new_oid_def trim_def is_space_def

lemmas create_defs =
  create_def validate_offered_def redeem_def record_swap_def threshold_met_def or_zero_def
  insufficient_message_def show_int_def show_nat.simps digit_char_def

lemmas accept_defs =
  accept_def accept_activities_def pointsToAward_def round53_def bit_length.simps

section \<open>Facts about the queries and the writes\<close>

lemma find_Some_holds: "find P xs = Some x \<Longrightarrow> P x"
  by (induction xs) (auto split: if_splits)

lemma find_update_first_same:
  "(\<And>x. P (f x) = P x) \<Longrightarrow> find P (update_first P f xs) = map_option f (find P xs)"
  by (induction xs) auto


lemma update_first_id: "(\<And>x. f x = x) \<Longrightarrow> update_first P f xs = xs"
  by (induction xs) auto





lemma find_user_set_item_status [simp]: "find_user (set_item_status d iid st) uid = find_user d uid"
  by (simp add: find_user_def set_item_status_def)

lemma users_set_item_status [simp]: "users (set_item_status d iid st) = users d"
  by (simp add: set_item_status_def)

lemma items_inc_points [simp]: "items (inc_points d uid n) = items d"
  by (simp add: inc_points_def)

lemma swaps_inc_points [simp]: "swaps (inc_points d uid n) = swaps d"
  by (simp add: inc_points_def)

lemma find_item_set_item_status_same:
  "find_item (set_item_status d iid st) iid = map_option (\<lambda>i. i\<lparr>i_status := st\<rparr>) (find_item d iid)"
  by (simp add: find_item_def set_item_status_def find_update_first_same)

lemma users_record_swap [simp]: "users (snd (record_swap d r it b)) = users d"
  by (simp add: record_swap_def insert_swap_def save_activity_def Let_def split: option.splits)

lemma items_record_swap [simp]: "items (snd (record_swap d r it b)) = items d"
  by (simp add: record_swap_def insert_swap_def save_activity_def Let_def split: option.splits)





lemma dropWhile_snoc_nonempty: "\<not> P c \<Longrightarrow> dropWhile P (xs @ [c]) \<noteq> []"
  by (induction xs) auto

lemma trim_nonempty: "\<not> is_space c \<Longrightarrow> trim (c # s) \<noteq> []"
  by (simp add: trim_def dropWhile_snoc_nonempty)


lemma create_redeemed:
  assumes "b_item_id body = Some iid"
    and "find_item d iid = Some it"
    and "i_status it = Available"
    and "find_user d (i_user_id it) = Some owner"
    and "i_user_id it \<noteq> requester_id"
    and "find_pending d requester_id iid = None"
    and "validate_offered d requester_id (b_offered_item_id body) = None"
    and "b_points_offered body = Some p"
    and "i_points it \<le> p"
    and "find_user d requester_id = Some usr"
    and "i_points it \<le> u_points usr"
  shows "create d requester_id body =
     record_swap
       (inc_points (inc_points (set_item_status d iid Swapped) requester_id (- i_points it))
          (i_user_id it) (i_points it))
       requester_id it body"
proof -
  have o: "u_id owner = i_user_id it"
    using assms(4) by (auto simp: find_user_def dest: find_Some_holds)
  have i: "i_id it = iid"
    using assms(2) by (auto simp: find_item_def dest: find_Some_holds)
  have "redeem d requester_id it owner (b_points_offered body) =
     Inr (inc_points (inc_points (set_item_status d iid Swapped) requester_id (- i_points it))
          (i_user_id it) (i_points it))"
    using assms(8-11) by (simp add: redeem_def threshold_met_def o i)
  then show ?thesis
    using assms(1-7) by (simp add: create_def o)
qed

section \<open>Redemption moves the valuation from the requester to the owner\<close>



section \<open>A redemption that the balance does not cover\<close>

text \<open>
  Claim C7. When a request passes the checks before the redemption block, offers at least
  the valuation of the item, and the requester's balance is below the valuation, \<open>create\<close>
  answers 400 with the error \<^verbatim>\<open>Insufficient points\<close>; the message names the valuation that
  is required and the balance that the requester has, and the database is returned as it
  was: no item, swap, balance or activity is written.
\<close>

theorem create_insufficient_points:
  assumes "b_item_id body = Some iid"
    and "find_item d iid = Some it"
    and "i_status it = Available"
    and "find_user d (i_user_id it) = Some owner"
    and "i_user_id it \<noteq> requester_id"
    and "find_pending d requester_id iid = None"
    and "validate_offered d requester_id (b_offered_item_id body) = None"
    and "b_points_offered body = Some p"
    and "i_points it \<le> p"
    and "find_user d requester_id = Some usr"
    and "u_points usr < i_points it"
  shows "create d requester_id body =
     (ErrorMsg 400 ''Insufficient points''
        (''You need '' @ show_int (i_points it) @ '' points to redeem this item. You have '' @
         show_int (u_points usr) @ '' points.''), d)"
proof -
  have o: "u_id owner = i_user_id it"
    using assms(4) by (auto simp: find_user_def dest: find_Some_holds)
  have "redeem d requester_id it owner (b_points_offered body) =
     Inl (ErrorMsg 400 ''Insufficient points'' (insufficient_message it (Some usr)))"
    using assms(8-11) by (simp add: redeem_def threshold_met_def)
  then show ?thesis
    using assms(1-7) by (simp add: create_def o insufficient_message_def or_zero_def)
qed

theorem create_insufficient_points_witness:
  "create (scenario 0 100 150) 2 (offer 150) =
     (ErrorMsg 400 ''Insufficient points''
        ''You need 150 points to redeem this item. You have 100 points.'', scenario 0 100 150)"
  using create_insufficient_points
    [of "offer 150" 10 "scenario 0 100 150"
        "\<lparr>i_id = 10, i_user_id = 1, i_title = ''Vintage Denim Jacket'', i_points = 150,
          i_status = Available\<rparr>"
        "\<lparr>u_id = 1, u_points = 0, u_level = level_of 0\<rparr>" 2 150
        "\<lparr>u_id = 2, u_points = 100, u_level = level_of 100\<rparr>"]
  by (simp add: sample_defs query_defs validate_offered_def show_int_def show_nat.simps digit_char_def)

section \<open>An item without valuation\<close>

text \<open>
  Claim C10 lists an available item of valuation 0, a requester who is not the owner and
  has no pending swap for it, and \<^verbatim>\<open>points_offered = 0\<close>. That is not enough for the
  redemption block to run. It runs behind the check of the balance, and a requester whose
  balance is below 0 is refused with insufficient points; and the check of the offered
  item comes before it. In both cases the item stays available.
\<close>

theorem zero_valuation_counterexample:
  "create (scenario 0 (- 5) 0) 2 (offer 0) =
     (ErrorMsg 400 ''Insufficient points''
        ''You need 0 points to redeem this item. You have -5 points.'', scenario 0 (- 5) 0)
   \<and> create (scenario 0 0 0) 2 ((offer 0)\<lparr>b_offered_item_id := Some 99\<rparr>) =
     (Error 404 ''Offered item not found'', scenario 0 0 0)
   \<and> map i_status (items (scenario 0 (- 5) 0)) = [Available]
   \<and> map i_status (items (scenario 0 0 0)) = [Available]"
  by (simp add: sample_defs query_defs write_defs create_defs)

text \<open>
  Claim C10, amended. For an available item whose valuation is 0, a request with
  \<^verbatim>\<open>points_offered = 0\<close> by a user who is not the owner, has no pending swap for the item,
  offers no item or one that passes its checks, and has a balance of at least 0, meets the
  threshold \<^verbatim>\<open>0 >= 0\<close> and runs the redemption block: the item is swapped afterwards,
  and the users' documents, so both balances, are what they were.
\<close>

theorem zero_valuation_is_redeemed:
  assumes "b_item_id body = Some iid"
    and "find_item d iid = Some it"
    and "i_status it = Available"
    and "i_points it = 0"
    and "find_user d (i_user_id it) = Some owner"
    and "i_user_id it \<noteq> requester_id"
    and "find_pending d requester_id iid = None"
    and "validate_offered d requester_id (b_offered_item_id body) = None"
    and "b_points_offered body = Some 0"
    and "find_user d requester_id = Some usr"
    and "0 \<le> u_points usr"
  shows "threshold_met (b_points_offered body) it
       \<and> map_option i_status (find_item (snd (create d requester_id body)) iid) = Some Swapped
       \<and> users (snd (create d requester_id body)) = users d"
proof -
  let ?d1 = "set_item_status d iid Swapped"
  have m: "threshold_met (b_points_offered body) it"
    using assms(4,9) by (simp add: threshold_met_def)
  have c: "create d requester_id body =
      record_swap (inc_points (inc_points ?d1 requester_id (- i_points it)) (i_user_id it) (i_points it))
        requester_id it body"
    using assms(4,11) by (intro create_redeemed [OF assms(1-3) assms(5-9) _ assms(10)]) simp_all
  have u: "users (snd (create d requester_id body)) = users d"
    by (simp add: c assms(4) inc_points_def update_first_id)
  have "items (snd (create d requester_id body)) = items ?d1"
    by (simp add: c)
  then have "find_item (snd (create d requester_id body)) iid = find_item ?d1 iid"
    by (simp add: find_item_def)
  then show ?thesis
    using assms(2) u m by (simp add: find_item_set_item_status_same)
qed

theorem zero_valuation_is_redeemed_witness:
  "threshold_met (Some 0)
     \<lparr>i_id = 10, i_user_id = 1, i_title = ''Vintage Denim Jacket'', i_points = 0,
       i_status = Available\<rparr>
   \<and> map_option i_status (find_item (snd (create (scenario 0 0 0) 2 (offer 0))) 10) = Some Swapped
   \<and> users (snd (create (scenario 0 0 0) 2 (offer 0))) = users (scenario 0 0 0)"
  using zero_valuation_is_redeemed
    [of "offer 0" 10 "scenario 0 0 0"
        "\<lparr>i_id = 10, i_user_id = 1, i_title = ''Vintage Denim Jacket'', i_points = 0,
          i_status = Available\<rparr>"
        "\<lparr>u_id = 1, u_points = 0, u_level = level_of 0\<rparr>" 2
        "\<lparr>u_id = 2, u_points = 0, u_level = level_of 0\<rparr>"]
  by (simp add: sample_defs query_defs validate_offered_def threshold_met_def)

section \<open>The guard against a second pending request\<close>

lemma fold_max_ge_start: "a \<le> fold max xs (a::nat)"
  by (induction xs arbitrary: a) (auto intro: order_trans [OF max.cobounded2])

lemma fold_max_ge_member: "x \<in> set xs \<Longrightarrow> x \<le> fold max xs (a::nat)"
  by (induction xs arbitrary: a) (auto intro: order_trans [OF max.cobounded1 fold_max_ge_start])

lemma new_oid_fresh: "new_oid ids \<notin> set ids"
proof
  assume "new_oid ids \<in> set ids"
  then have "new_oid ids \<le> fold max ids 0" by (rule fold_max_ge_member)
  then show False by (simp add: new_oid_def)
qed

lemma find_None_if: "(\<And>x. x \<in> set xs \<Longrightarrow> \<not> P x) \<Longrightarrow> find P xs = None"
  by (induction xs) auto

lemma activity_valid_request:
  "activity_valid (new_activity uid ''swap_request'' (''Requested swap for '' @ t) p iid)"
  by (simp add: activity_valid_def new_activity_def activity_types_def trim_nonempty is_space_def)

lemma create_plain_request:
  assumes "b_item_id body = Some iid"
    and "find_item d iid = Some it"
    and "i_status it = Available"
    and "find_user d (i_user_id it) = Some owner"
    and "i_user_id it \<noteq> requester_id"
    and "\<forall>s \<in> set (swaps d). s_requester_id s = requester_id \<and> s_item_id s = iid
           \<longrightarrow> s_status s = Declined \<or> s_status s = Cancelled"
    and "validate_offered d requester_id (b_offered_item_id body) = None"
    and "\<not> threshold_met (b_points_offered body) it"
    and "swap_valid sw"
    and "sw = new_swap d requester_id iid (b_offered_item_id body) (or_zero (b_points_offered body))
                (case b_message body of None \<Rightarrow> [] | Some m \<Rightarrow> m)"
  shows "create d requester_id body =
           (Created (s_id sw) ''Swap request created successfully'',
            d\<lparr>swaps := swaps d @ [sw],
              activities := activities d @
                [new_activity requester_id ''swap_request'' (''Requested swap for '' @ i_title it) 0 iid]\<rparr>)
       \<and> s_status sw = Pending \<and> s_requester_id sw = requester_id \<and> s_item_id sw = iid
       \<and> s_id sw \<notin> set (map s_id (swaps d))"
proof -
  have o: "u_id owner = i_user_id it"
    using assms(4) by (auto simp: find_user_def dest: find_Some_holds)
  have i: "i_id it = iid"
    using assms(2) by (auto simp: find_item_def dest: find_Some_holds)
  have p: "find_pending d requester_id iid = None"
    unfolding find_pending_def using assms(6) by (intro find_None_if) auto
  have r: "redeem d requester_id it owner (b_points_offered body) = Inr d"
    using assms(8) by (simp add: redeem_def)
  have c: "create d requester_id body = record_swap d requester_id it body"
    using assms(1-5,7) by (simp add: create_def o p r)
  have "record_swap d requester_id it body =
           (Created (s_id sw) ''Swap request created successfully'',
            d\<lparr>swaps := swaps d @ [sw],
              activities := activities d @
                [new_activity requester_id ''swap_request'' (''Requested swap for '' @ i_title it) 0 iid]\<rparr>)"
    using assms(8,9) activity_valid_request [of requester_id "i_title it" 0 iid]
    by (simp add: record_swap_def i assms(10) [symmetric] insert_swap_def save_activity_def)
  moreover have "s_id sw \<notin> set (map s_id (swaps d))"
    by (simp only: assms(10) new_swap_def swap.simps new_oid_fresh not_False_eq_True)
  ultimately show ?thesis
    by (simp add: c) (simp add: assms(10) new_swap_def)
qed

lemma create_blocked:
  assumes "b_item_id body = Some iid"
    and "find_item d iid = Some it"
    and "i_status it = Available"
    and "find_user d (i_user_id it) = Some owner"
    and "i_user_id it \<noteq> requester_id"
    and "s \<in> set (swaps d)"
    and "s_requester_id s = requester_id \<and> s_item_id s = iid \<and> s_status s = Pending"
  shows "create d requester_id body =
           (Error 400 ''You already have a pending swap request for this item'', d)"
proof -
  have o: "u_id owner = i_user_id it"
    using assms(4) by (auto simp: find_user_def dest: find_Some_holds)
  have "find_pending d requester_id iid \<noteq> None"
    using assms(6,7) by (auto simp: find_pending_def find_None_iff)
  then obtain e where "find_pending d requester_id iid = Some e"
    by blast
  then show ?thesis
    using assms(1-5) by (simp add: create_def o)
qed

text \<open>
  Claim C9 says that, once a swap of the requester for the item has been declined or
  cancelled, a new request of the same requester for the same item, still available,
  succeeds and creates a pending swap. The guard is not the last check of \<open>create\<close>.
  After user 2, with a balance of 100, has asked for item 10 of valuation 150 and the
  owner has declined, the declined swap is the only one and the item is available; yet a
  new request of user 2 that offers 150 points is answered 400 for insufficient points,
  one that offers an item that does not exist is answered 404, and one that offers - 1
  points fails the validation of the swap and is answered 500. None of them creates a swap.
\<close>

theorem create_after_decline_counterexample:
  "map s_status (swaps (snd (decline (snd (create (scenario 0 100 150) 2 (offer 0))) 1 1))) =
     [Declined]
   \<and> map i_status (items (snd (decline (snd (create (scenario 0 100 150) 2 (offer 0))) 1 1))) =
     [Available]
   \<and> create (snd (decline (snd (create (scenario 0 100 150) 2 (offer 0))) 1 1)) 2 (offer 150) =
     (ErrorMsg 400 ''Insufficient points''
        ''You need 150 points to redeem this item. You have 100 points.'',
      snd (decline (snd (create (scenario 0 100 150) 2 (offer 0))) 1 1))
   \<and> create (snd (decline (snd (create (scenario 0 100 150) 2 (offer 0))) 1 1)) 2
       ((offer 0)\<lparr>b_offered_item_id := Some 99\<rparr>) =
     (Error 404 ''Offered item not found'',
      snd (decline (snd (create (scenario 0 100 150) 2 (offer 0))) 1 1))
   \<and> create (snd (decline (snd (create (scenario 0 100 150) 2 (offer 0))) 1 1)) 2 (offer (- 1)) =
     (Error 500 ''Failed to create swap request'',
      snd (decline (snd (create (scenario 0 100 150) 2 (offer 0))) 1 1))"
  by (simp add: sample_defs query_defs write_defs create_defs decline_def)

text \<open>
  Claim C9, amended. The guard of \<open>create\<close> against a second request looks for pending
  swaps only. For an available item and a requester who is not its owner: a pending swap
  of the requester for the item makes \<open>create\<close> answer 400 and write nothing; and when
  every swap of the requester for the item has been declined or cancelled, a new request
  that also passes the checks after the guard (it offers no item or one that passes its
  checks, it offers fewer points than the valuation, and the swap \<open>sw\<close> that the handler
  builds passes the validators of the schema) is answered 201 and adds a new pending swap
  with an identifier of its own, and the activity \<^verbatim>\<open>swap_request\<close>.
\<close>

theorem pending_guard_counts_pending_only:
  assumes "b_item_id body = Some iid"
    and "find_item d iid = Some it"
    and "i_status it = Available"
    and "find_user d (i_user_id it) = Some owner"
    and "i_user_id it \<noteq> requester_id"
  shows "((\<exists>s \<in> set (swaps d).
             s_requester_id s = requester_id \<and> s_item_id s = iid \<and> s_status s = Pending)
          \<longrightarrow> create d requester_id body =
                (Error 400 ''You already have a pending swap request for this item'', d))
       \<and> ((\<forall>s \<in> set (swaps d). s_requester_id s = requester_id \<and> s_item_id s = iid
                \<longrightarrow> s_status s = Declined \<or> s_status s = Cancelled)
            \<and> validate_offered d requester_id (b_offered_item_id body) = None
            \<and> \<not> threshold_met (b_points_offered body) it
            \<and> swap_valid sw
            \<and> sw = new_swap d requester_id iid (b_offered_item_id body)
                     (or_zero (b_points_offered body))
                     (case b_message body of None \<Rightarrow> [] | Some m \<Rightarrow> m)
          \<longrightarrow> create d requester_id body =
                (Created (s_id sw) ''Swap request created successfully'',
                 d\<lparr>swaps := swaps d @ [sw],
                   activities := activities d @
                     [new_activity requester_id ''swap_request''
                        (''Requested swap for '' @ i_title it) 0 iid]\<rparr>)
              \<and> s_status sw = Pending \<and> s_requester_id sw = requester_id \<and> s_item_id sw = iid
              \<and> s_id sw \<notin> set (map s_id (swaps d)))"
proof (rule conjI; rule impI)
  assume "\<exists>s \<in> set (swaps d).
            s_requester_id s = requester_id \<and> s_item_id s = iid \<and> s_status s = Pending"
  then obtain s where s: "s \<in> set (swaps d)"
    "s_requester_id s = requester_id \<and> s_item_id s = iid \<and> s_status s = Pending"
    by blast
  show "create d requester_id body =
      (Error 400 ''You already have a pending swap request for this item'', d)"
    by (rule create_blocked [OF assms s])
next
  assume h: "(\<forall>s \<in> set (swaps d). s_requester_id s = requester_id \<and> s_item_id s = iid
                \<longrightarrow> s_status s = Declined \<or> s_status s = Cancelled)
            \<and> validate_offered d requester_id (b_offered_item_id body) = None
            \<and> \<not> threshold_met (b_points_offered body) it
            \<and> swap_valid sw
            \<and> sw = new_swap d requester_id iid (b_offered_item_id body)
                     (or_zero (b_points_offered body))
                     (case b_message body of None \<Rightarrow> [] | Some m \<Rightarrow> m)"
  show "create d requester_id body =
          (Created (s_id sw) ''Swap request created successfully'',
           d\<lparr>swaps := swaps d @ [sw],
             activities := activities d @
               [new_activity requester_id ''swap_request''
                  (''Requested swap for '' @ i_title it) 0 iid]\<rparr>)
        \<and> s_status sw = Pending \<and> s_requester_id sw = requester_id \<and> s_item_id sw = iid
        \<and> s_id sw \<notin> set (map s_id (swaps d))"
    by (rule create_plain_request [OF assms]) (use h in blast)+
qed

theorem pending_guard_counts_pending_only_witness:
  "create (snd (create (scenario 0 200 150) 2 (offer 0))) 2 (offer 0) =
     (Error 400 ''You already have a pending swap request for this item'',
      snd (create (scenario 0 200 150) 2 (offer 0)))
   \<and> fst (create (snd (decline (snd (create (scenario 0 200 150) 2 (offer 0))) 1 1)) 2 (offer 0)) =
     Created 2 ''Swap request created successfully''
   \<and> map s_status
        (swaps (snd (create (snd (decline (snd (create (scenario 0 200 150) 2 (offer 0))) 1 1)) 2
           (offer 0)))) = [Declined, Pending]"
  using pending_guard_counts_pending_only
    [of "offer 0" 10 "snd (create (scenario 0 200 150) 2 (offer 0))"
        "\<lparr>i_id = 10, i_user_id = 1, i_title = ''Vintage Denim Jacket'', i_points = 150,
          i_status = Available\<rparr>"
        "\<lparr>u_id = 1, u_points = 0, u_level = level_of 0\<rparr>" 2]
    pending_guard_counts_pending_only
    [of "offer 0" 10 "snd (decline (snd (create (scenario 0 200 150) 2 (offer 0))) 1 1)"
        "\<lparr>i_id = 10, i_user_id = 1, i_title = ''Vintage Denim Jacket'', i_points = 150,
          i_status = Available\<rparr>"
        "\<lparr>u_id = 1, u_points = 0, u_level = level_of 0\<rparr>" 2
        "\<lparr>s_id = 2, s_requester_id = 2, s_item_id = 10, s_offered_item_id = None,
          s_status = Pending, s_points_offered = 0, s_message = []\<rparr>"]
  by (simp add: sample_defs query_defs write_defs create_defs decline_def)

section \<open>A swap that has left pending\<close>

text \<open>
  Claim C8. For a swap whose status is completed, declined or cancelled, a further
  \<open>accept\<close> or \<open>decline\<close> by the owner of the item and a further \<open>cancel\<close> by the requester
  are answered 400, and the database is returned as it was: the swap, the item, every
  balance and the activity log are unchanged.
\<close>

theorem terminal_swap_is_final:
  assumes "find_swap d sid = Some sw"
    and "s_status sw = Completed \<or> s_status sw = Declined \<or> s_status sw = Cancelled"
    and "find_item d (s_item_id sw) = Some it"
  shows "accept d sid (i_user_id it) = (Error 400 ''Swap request is no longer pending'', d)
       \<and> decline d sid (i_user_id it) = (Error 400 ''Swap request is no longer pending'', d)
       \<and> cancel d sid (s_requester_id sw) = (Error 400 ''Swap request is no longer pending'', d)"
proof -
  have n: "s_status sw \<noteq> Pending"
    using assms(2) by auto
  have "accept d sid (i_user_id it) = (Error 400 ''Swap request is no longer pending'', d)"
    using assms(1,3) n by (simp add: accept_def)
  moreover have "decline d sid (i_user_id it) = (Error 400 ''Swap request is no longer pending'', d)"
    using assms(1,3) n by (simp add: decline_def)
  moreover have "cancel d sid (s_requester_id sw) = (Error 400 ''Swap request is no longer pending'', d)"
    using assms(1) n by (simp add: cancel_def)
  ultimately show ?thesis by simp
qed

theorem terminal_swap_is_final_witness:
  "accept (snd (accept (snd (create (scenario 0 0 200) 2 (offer 0))) 1 1)) 1 1 =
     (Error 400 ''Swap request is no longer pending'',
      snd (accept (snd (create (scenario 0 0 200) 2 (offer 0))) 1 1))
   \<and> decline (snd (accept (snd (create (scenario 0 0 200) 2 (offer 0))) 1 1)) 1 1 =
     (Error 400 ''Swap request is no longer pending'',
      snd (accept (snd (create (scenario 0 0 200) 2 (offer 0))) 1 1))
   \<and> cancel (snd (accept (snd (create (scenario 0 0 200) 2 (offer 0))) 1 1)) 1 2 =
     (Error 400 ''Swap request is no longer pending'',
      snd (accept (snd (create (scenario 0 0 200) 2 (offer 0))) 1 1))"
  using terminal_swap_is_final
    [of "snd (accept (snd (create (scenario 0 0 200) 2 (offer 0))) 1 1)" 1
        "\<lparr>s_id = 1, s_requester_id = 2, s_item_id = 10, s_offered_item_id = None,
          s_status = Completed, s_points_offered = 0, s_message = []\<rparr>"
        "\<lparr>i_id = 10, i_user_id = 1, i_title = ''Vintage Denim Jacket'', i_points = 200,
          i_status = Swapped\<rparr>"]
  by (simp add: sample_defs query_defs write_defs create_defs accept_defs)

section \<open>The bonus of an accepted swap\<close>







section \<open>Where the handlers part from the specification\<close>

text \<open>
  Claim C1. The claim asks that every settlement against an item that is already swapped
  fails and writes nothing. \<open>create\<close> reads the status of the item and does so; \<open>accept\<close>
  never reads it. Users 2 and 3 each ask for item 10 of valuation 200, and the owner
  accepts the first swap: the item is swapped and the owner and user 2 hold the bonus of
  20. A later \<open>create\<close> for the item is answered 404 with the database unchanged, but
  the owner's \<open>accept\<close> of the second swap, still pending, is answered with success: that
  swap is completed as well, and the owner and user 3 are paid a bonus again.
\<close>

theorem accept_settles_swapped_item_again:
  "(let d1 = snd (create (scenario 0 0 200) 2 (offer 0));
        d2 = snd (create d1 3 (offer 0));
        d3 = snd (accept d2 1 1)
    in map s_status (swaps d3) = [Completed, Pending]
       \<and> map i_status (items d3) = [Swapped]
       \<and> map u_points (users d3) = [20, 20, 320]
       \<and> create d3 3 (offer 200) = (Error 404 ''Item not found or not available'', d3)
       \<and> fst (accept d3 2 1) = Ok ''Swap request accepted successfully''
       \<and> map s_status (swaps (snd (accept d3 2 1))) = [Completed, Completed]
       \<and> map i_status (items (snd (accept d3 2 1))) = [Swapped]
       \<and> map u_points (users (snd (accept d3 2 1))) = [40, 20, 340])"
  by (simp add: sample_defs query_defs write_defs create_defs accept_defs Let_def)

text \<open>
  Claim C2. The claim asks that a redemption creates its swap as completed. In scenario A
  (valuation 150, owner at 0, requester at 200, 150 points offered) the item is swapped
  and the 150 points have moved, and the swap that the handler saves is pending: it is
  built without a status and takes the default of the schema.
\<close>

theorem redemption_leaves_swap_pending:
  "swaps (snd (create (scenario 0 200 150) 2 (offer 150))) =
     [\<lparr>s_id = 1, s_requester_id = 2, s_item_id = 10, s_offered_item_id = None,
       s_status = Pending, s_points_offered = 150, s_message = []\<rparr>]
   \<and> map i_status (items (snd (create (scenario 0 200 150) 2 (offer 150)))) = [Swapped]
   \<and> map u_points (users (snd (create (scenario 0 200 150) 2 (offer 150)))) = [150, 50, 320]"
  by (simp add: sample_defs query_defs write_defs create_defs Let_def)

text \<open>
  Claim C3. The claim asks that a redemption appends one activity of type
  \<^verbatim>\<open>point_redemption\<close>. That type is not in the enum of the activity schema, so the save
  of the activity fails: in scenario A the handler answers 500 after the item, the
  balances and the swap have been written, and the activity log stays empty.
\<close>

theorem redemption_records_no_activity:
  "create (scenario 0 200 150) 2 (offer 150) =
     (Error 500 ''Failed to create swap request'',
      (scenario 0 200 150)
        \<lparr>users :=
           [\<lparr>u_id = 1, u_points = 150, u_level = ''Newcomer''\<rparr>,
            \<lparr>u_id = 2, u_points = 50, u_level = ''Fashion Enthusiast''\<rparr>,
            \<lparr>u_id = 3, u_points = 320, u_level = ''Fashion Enthusiast''\<rparr>],
         items :=
           [\<lparr>i_id = 10, i_user_id = 1, i_title = ''Vintage Denim Jacket'', i_points = 150,
             i_status = Swapped\<rparr>],
         swaps :=
           [\<lparr>s_id = 1, s_requester_id = 2, s_item_id = 10, s_offered_item_id = None,
             s_status = Pending, s_points_offered = 150, s_message = []\<rparr>],
         activities := []\<rparr>)
   \<and> ''point_redemption'' \<notin> set activity_types"
  by (simp add: sample_defs query_defs write_defs create_defs Let_def)

text \<open>
  Claim C4. The claim asks that both settlements derive the level again for every user
  whose points they change. Both write the points with \<^verbatim>\<open>$inc\<close> alone and never call
  \<open>updateLevel\<close>. In scenario A every level is the derived one before the redemption;
  after it the owner holds 150 points at level Newcomer and the requester 50 points at
  level Fashion Enthusiast, where \<open>updateLevel\<close> gives the opposite. After an accepted
  swap that lifts both parties from 90 to 110 points, both are still Newcomer.
\<close>

theorem settlement_keeps_stale_level:
  "map u_level (users (scenario 0 200 150)) = [''Newcomer'', ''Fashion Enthusiast'', ''Fashion Enthusiast'']
   \<and> users (snd (create (scenario 0 200 150) 2 (offer 150))) =
       [\<lparr>u_id = 1, u_points = 150, u_level = ''Newcomer''\<rparr>,
        \<lparr>u_id = 2, u_points = 50, u_level = ''Fashion Enthusiast''\<rparr>,
        \<lparr>u_id = 3, u_points = 320, u_level = ''Fashion Enthusiast''\<rparr>]
   \<and> map updateLevel (users (snd (create (scenario 0 200 150) 2 (offer 150)))) =
       [\<lparr>u_id = 1, u_points = 150, u_level = ''Fashion Enthusiast''\<rparr>,
        \<lparr>u_id = 2, u_points = 50, u_level = ''Newcomer''\<rparr>,
        \<lparr>u_id = 3, u_points = 320, u_level = ''Fashion Enthusiast''\<rparr>]
   \<and> fst (accept (snd (create (scenario 90 90 200) 2 (offer 0))) 1 1) =
       Ok ''Swap request accepted successfully''
   \<and> users (snd (accept (snd (create (scenario 90 90 200) 2 (offer 0))) 1 1)) =
       [\<lparr>u_id = 1, u_points = 110, u_level = ''Newcomer''\<rparr>,
        \<lparr>u_id = 2, u_points = 110, u_level = ''Newcomer''\<rparr>,
        \<lparr>u_id = 3, u_points = 320, u_level = ''Fashion Enthusiast''\<rparr>]
   \<and> level_of 110 = ''Fashion Enthusiast''"
  by (simp add: sample_defs query_defs write_defs create_defs accept_defs updateLevel_def Let_def)

end
